theory Spec2Isabelle
  imports Main
begin

section \<open>Errors and internal assertions\<close>

text \<open>
  Every failure of the modelled code is a value of \<open>error\<close>. The code raises through
  \<open>internal_assertion(cond, message)\<close>; it also has one bare \<open>throw null\<close>
  (in \<open>Environment.lookup_name\<close>), and one place where a method is called on
  \<open>undefined\<close> (in \<open>Environment.add_var_mut\<close> on an empty frame stack), which is a
  JavaScript \<open>TypeError\<close>. An assertion message is kept as its constant prefix; the
  interpolated renderings of frames and names are left out.
\<close>

datatype error =
    InternalAssertionError string
  | NullThrown
  | TypeError

text \<open>
  Modelled from the spec: \<open>internal_assertion\<close> lives in \<open>utils\<close>, which is not among
  the sources. It evaluates the condition and fails with the message when the condition
  is false.
\<close>

definition internal_assertion :: "bool \<Rightarrow> string \<Rightarrow> error + unit" where
  "internal_assertion cond message =
     (if cond then Inr () else Inl (InternalAssertionError message))"

text \<open>
  Modelled from the spec: the spec calls a failed assertion of the Environment a
  \<open>ScopeError\<close> and a failed assertion of an AST constructor a
  \<open>ConstructionError\<close>. Both are failures of \<open>internal_assertion\<close>; they differ by
  the message.
\<close>

definition scope_messages :: "string list" where
  "scope_messages =
     [''Variable lookup frame out of range.'',
      ''Variable lookup symbol mismatch.'',
      ''Variable setting frame out of range.'',
      ''Variable setting symbol mismatch.'',
      ''Attempted to add variable that exists.'',
      ''Variable lookup env out of range.'',
      ''Variable setting env out of range.'',
      ''Adding variable outside of current scope.'',
      ''Removing frame from an empty environment.'']"

definition construction_messages :: "string list" where
  "construction_messages =
     [''is_relative does not match with the given timestamp'',
      ''RegulativeRuleConclusion requires one of fulfilled or performed!'']"

fun ScopeError :: "error \<Rightarrow> bool" where
  "ScopeError (InternalAssertionError m) = (m \<in> set scope_messages)"
| "ScopeError NullThrown = False"
| "ScopeError TypeError = False"

fun ConstructionError :: "error \<Rightarrow> bool" where
  "ConstructionError (InternalAssertionError m) = (m \<in> set construction_messages)"
| "ConstructionError NullThrown = False"
| "ConstructionError TypeError = False"


section \<open>Tokens (token.ts)\<close>

datatype TokenType =
    TokenType_PARTY | TokenType_WHERE | TokenType_MUST | TokenType_MEANS
  | TokenType_OBLIGATED | TokenType_PERMITTED
  | TokenType_FULFILLED | TokenType_PERFORMED
  | TokenType_IF | TokenType_THEN | TokenType_ELSE | TokenType_TERNARY
  | TokenType_WITHIN | TokenType_BETWEEN | TokenType_BEFORE | TokenType_BEFORE_ON
  | TokenType_AFTER | TokenType_AFTER_ON | TokenType_ON
  | TokenType_ACTION | TokenType_LEFT_ARROW | TokenType_RIGHT_ARROW
  | TokenType_IDENTIFIER | TokenType_SEMICOLON | TokenType_DOUBLE_SEMICOLON
  | TokenType_AND | TokenType_OR | TokenType_NOT | TokenType_DOLLAR | TokenType_BACKTICK
  | TokenType_TRUE | TokenType_FALSE
  | TokenType_PLUS | TokenType_MINUS | TokenType_STAR | TokenType_SLASH
  | TokenType_COMMENT

text \<open>JavaScript numbers are modelled as integers; no modelled code computes with them.\<close>

type_synonym number = int

record Token =
  token_type :: TokenType
  literal :: string
  line :: number
  begin_col :: number
  end_col :: number


section \<open>The AST of the language (AstNode.ts)\<close>

datatype LiteralType =
    Number number
  | Boolean bool
  | UnitLiteral (typename: string) (instance_name: string)

datatype Identifier = Identifier (identifier_name: string) (identifier_tokens: "Token list")

datatype RelationalIdentifier =
  RelationalIdentifier (template: "string list") (instances: "Identifier list")
    (relational_tokens: "Token list")

datatype LogicalCompositionType = LogicalComposition_AND | LogicalComposition_OR

datatype BinaryOpType =
    BinaryOp_Add | BinaryOp_Sub | BinaryOp_Mul | BinaryOp_Mod | BinaryOp_Div
  | BinaryOp_Gt | BinaryOp_Ge | BinaryOp_Lt | BinaryOp_Le | BinaryOp_Eq | BinaryOp_Ne

datatype UnaryOpType = UnaryOp_Neg | UnaryOp_Not

datatype Expression =
    Literal LiteralType "Token list"
  | Expression_Identifier Identifier
  | Expression_RelationalIdentifier RelationalIdentifier
  | ConditionalExpr Expression Expression Expression "Token list"
  | LogicalComposition LogicalCompositionType Expression Expression "Token list"
  | BinaryOp BinaryOpType Expression Expression "Token list"
  | UnaryOp UnaryOpType Expression "Token list"

text \<open>\<open>RelativeTime | AbsoluteTime\<close>, each with its three numbers and its tokens.\<close>

datatype Timestamp =
    RelativeTime (ndays: number) (nmonths: number) (nyears: number) "Token list"
  | AbsoluteTime (days: number) (months: number) (years: number) "Token list"

fun tag :: "Timestamp \<Rightarrow> string" where
  "tag (RelativeTime d m y ts) = ''RelativeTime''"
| "tag (AbsoluteTime d m y ts) = ''AbsoluteTime''"

record TemporalConstraint =
  is_relative :: bool
  timestamp :: Timestamp
  temporal_tokens :: "Token list"

text \<open>The constructor of \<open>TemporalConstraint\<close>: the fields are stored once the assertion passes.\<close>

definition TemporalConstraint_new ::
    "bool \<Rightarrow> Timestamp \<Rightarrow> Token list \<Rightarrow> error + TemporalConstraint" where
  "TemporalConstraint_new is_rel ts toks =
     (case internal_assertion
             (tag ts = (if is_rel then ''RelativeTime'' else ''AbsoluteTime''))
             ''is_relative does not match with the given timestamp'' of
        Inl e \<Rightarrow> Inl e
      | Inr _ \<Rightarrow> Inr \<lparr>is_relative = is_rel, timestamp = ts, temporal_tokens = toks\<rparr>)"

datatype DeonticTemporalActionType = PERMITTED | OBLIGATED

record DeonticTemporalAction =
  is_always :: bool
  op :: DeonticTemporalActionType
  action :: Expression
  temporal_constraint :: "TemporalConstraint option"
  instance_tag :: "Expression list"
  deontic_tokens :: "Token list"

datatype RevokeMarker = RevokeMarker "Token list"

datatype MutationValue = Mutation_Expression Expression | Mutation_Revoke RevokeMarker

record Mutation =
  mutation_id :: RelationalIdentifier
  mutation_value :: MutationValue

record RegulativeRuleInvocation =
  regulative_label :: Identifier
  args :: "Expression list"
  invocation_tokens :: "Token list"

datatype Conclusion =
    Conclusion_Invocation RegulativeRuleInvocation
  | Conclusion_Action DeonticTemporalAction

record RegulativeRuleConclusion =
  fulfilled :: "bool option"
  performed :: "bool option"
  mutations :: "Mutation list"
  conclusions :: "Conclusion list"
  conclusion_tokens :: "Token list"

text \<open>
  \<open>x == true\<close> for \<open>x: Maybe<boolean>\<close>: \<open>undefined == true\<close> and \<open>false == true\<close>
  are both false.
\<close>

fun eq_true :: "bool option \<Rightarrow> bool" where
  "eq_true None = False"
| "eq_true (Some b) = b"

definition RegulativeRuleConclusion_new ::
    "bool option \<Rightarrow> bool option \<Rightarrow> Mutation list \<Rightarrow> Conclusion list \<Rightarrow> Token list
       \<Rightarrow> error + RegulativeRuleConclusion" where
  "RegulativeRuleConclusion_new f p ms cs toks =
     (case internal_assertion (eq_true f \<or> eq_true p)
             ''RegulativeRuleConclusion requires one of fulfilled or performed!'' of
        Inl e \<Rightarrow> Inl e
      | Inr _ \<Rightarrow> Inr \<lparr>fulfilled = f, performed = p, mutations = ms, conclusions = cs,
                      conclusion_tokens = toks\<rparr>)"


section \<open>The AST of the runtime, as the Environment sees it\<close>

text \<open>
  Modelled from the spec: the runtime's own \<open>AstNode\<close> module (imported by
  Environment.ts as \<open>Ast\<close>) is not among the sources. The Environment reads
  \<open>name.sym\<close> and \<open>name.env_pos\<close> of an \<open>Ast.ResolvedName\<close>, reads
  \<open>name.sym\<close> of an \<open>Ast.Name\<close>, builds \<open>new Ast.Literal(result)\<close> and stores
  \<open>Ast.AstNode\<close>s without looking inside. An address is a pair of a scope,
  \<open>"global" | number\<close>, and a slot number. The node kinds follow the expression kinds the
  spec lists; the value a \<open>Literal\<close> wraps is the spec's value type, \<open>LiteralType\<close>
  above.
\<close>

datatype scope = Global | Scope number

record Ast_ResolvedName =
  sym :: string
  env_pos :: "scope \<times> number"

datatype Ast_Name = Ast_Name (bare_sym: string)

datatype Ast_AstNode =
    Ast_Literal LiteralType
  | Ast_NameNode Ast_Name
  | Ast_ResolvedNameNode Ast_ResolvedName
  | Ast_ConditionalExpr Ast_AstNode Ast_AstNode Ast_AstNode
  | Ast_LogicalComposition LogicalCompositionType Ast_AstNode Ast_AstNode
  | Ast_BinaryOp BinaryOpType Ast_AstNode Ast_AstNode
  | Ast_UnaryOp UnaryOpType Ast_AstNode


section \<open>Frames and the store (Environment.ts)\<close>

datatype FrameSymbol = FrameSymbol (fsym: string) (ast: Ast_AstNode)

text \<open>
  A JavaScript \<open>Map\<close> keeps its entries in insertion order: \<open>set\<close> on a present key
  replaces the value in place, \<open>set\<close> on a new key appends. It is an association list.
\<close>

definition Map_get :: "('k \<times> 'v) list \<Rightarrow> 'k \<Rightarrow> 'v option" where
  "Map_get m k = map_of m k"

definition Map_has :: "('k \<times> 'v) list \<Rightarrow> 'k \<Rightarrow> bool" where
  "Map_has m k = (map_of m k \<noteq> None)"

fun Map_set :: "('k \<times> 'v) list \<Rightarrow> 'k \<Rightarrow> 'v \<Rightarrow> ('k \<times> 'v) list" where
  "Map_set [] k v = [(k, v)]"
| "Map_set ((k', v') # m) k v =
     (if k' = k then (k, v) # m else (k', v') # Map_set m k v)"

datatype Frame = Frame (frame_items: "(number \<times> FrameSymbol) list")

text \<open>
  Frames are objects: two environments can hold the same frame, and a write through one
  is seen through the other. The store maps a reference to the frame it holds;
  \<open>next_ref\<close> is the first reference not yet handed out.
\<close>

type_synonym ref = nat

record heap =
  cells :: "ref \<Rightarrow> Frame"
  next_ref :: ref

definition alloc :: "heap \<Rightarrow> Frame \<Rightarrow> ref \<times> heap" where
  "alloc h f =
     (next_ref h, \<lparr>cells = (cells h)(next_ref h := f), next_ref = Suc (next_ref h)\<rparr>)"

definition write_frame :: "heap \<Rightarrow> ref \<Rightarrow> Frame \<Rightarrow> heap" where
  "write_frame h r f = h\<lparr>cells := (cells h)(r := f)\<rparr>"

definition Frame_lookup :: "Frame \<Rightarrow> Ast_ResolvedName \<Rightarrow> error + Ast_AstNode" where
  "Frame_lookup f name =
     (let query_sym = sym name;
          frame_pos = snd (env_pos name);
          lookup = Map_get (frame_items f) frame_pos
      in case internal_assertion (lookup \<noteq> None)
                ''Variable lookup frame out of range.'' of
           Inl e \<Rightarrow> Inl e
         | Inr _ \<Rightarrow>
             (case internal_assertion (query_sym = fsym (the lookup))
                     ''Variable lookup symbol mismatch.'' of
                Inl e \<Rightarrow> Inl e
              | Inr _ \<Rightarrow> Inr (ast (the lookup))))"

text \<open>The \<open>for\<close> loop over \<open>frame_items.entries()\<close>.\<close>

fun entries_find :: "(number \<times> FrameSymbol) list \<Rightarrow> Ast_Name \<Rightarrow> number option" where
  "entries_find [] name = None"
| "entries_find ((p2, s) # rest) name =
     (if fsym s = bare_sym name then Some p2 else entries_find rest name)"

definition Frame_lookup_name :: "Frame \<Rightarrow> Ast_Name \<Rightarrow> number option" where
  "Frame_lookup_name f name = entries_find (frame_items f) name"

definition Frame_copy :: "heap \<Rightarrow> ref \<Rightarrow> ref \<times> heap" where
  "Frame_copy h r = alloc h (Frame (frame_items (cells h r)))"

definition Frame_set_var ::
    "heap \<Rightarrow> ref \<Rightarrow> Ast_ResolvedName \<Rightarrow> LiteralType \<Rightarrow> (error + unit) \<times> heap" where
  "Frame_set_var h r name result =
     (let frame_pos = snd (env_pos name);
          lookup = Map_get (frame_items (cells h r)) frame_pos
      in case internal_assertion (lookup \<noteq> None)
                ''Variable setting frame out of range.'' of
           Inl e \<Rightarrow> (Inl e, h)
         | Inr _ \<Rightarrow>
             (case internal_assertion (fsym (the lookup) = sym name)
                     ''Variable setting symbol mismatch.'' of
                Inl e \<Rightarrow> (Inl e, h)
              | Inr _ \<Rightarrow>
                  (Inr (),
                   write_frame h r
                     (Frame (Map_set (frame_items (cells h r)) frame_pos
                        (FrameSymbol (sym name) (Ast_Literal result)))))))"

definition Frame_add_var ::
    "heap \<Rightarrow> ref \<Rightarrow> Ast_ResolvedName \<Rightarrow> Ast_AstNode \<Rightarrow> (error + unit) \<times> heap" where
  "Frame_add_var h r name expr =
     (case internal_assertion (\<not> Map_has (frame_items (cells h r)) (snd (env_pos name)))
             ''Attempted to add variable that exists.'' of
        Inl e \<Rightarrow> (Inl e, h)
      | Inr _ \<Rightarrow>
          (Inr (),
           write_frame h r
             (Frame (Map_set (frame_items (cells h r)) (snd (env_pos name))
                (FrameSymbol (sym name) expr)))))"


section \<open>Environments (Environment.ts)\<close>

record Environment =
  global_frame :: ref
  frames :: "ref list"

text \<open>\<open>xs[i]\<close> on a JavaScript array: \<open>undefined\<close> outside \<open>0 .. length - 1\<close>.\<close>

definition array_get :: "'a list \<Rightarrow> number \<Rightarrow> 'a option" where
  "array_get xs i = (if 0 \<le> i \<and> i < int (length xs) then Some (xs ! nat i) else None)"

definition Environment_empty :: "heap \<Rightarrow> Environment \<times> heap" where
  "Environment_empty h =
     (let (g, h') = alloc h (Frame []) in (\<lparr>global_frame = g, frames = []\<rparr>, h'))"

definition lookup :: "heap \<Rightarrow> Environment \<Rightarrow> Ast_ResolvedName \<Rightarrow> error + Ast_AstNode" where
  "lookup h env name =
     (case fst (env_pos name) of
        Global \<Rightarrow> Frame_lookup (cells h (global_frame env)) name
      | Scope frameidx \<Rightarrow>
          (let x = array_get (frames env) frameidx
           in case internal_assertion (x \<noteq> None) ''Variable lookup env out of range.'' of
                Inl e \<Rightarrow> Inl e
              | Inr _ \<Rightarrow> Frame_lookup (cells h (the x)) name))"

text \<open>
  The \<open>while (p1 > 0)\<close> loop of \<open>lookup_name\<close>; the recursion is on \<open>p1\<close>, which starts
  at \<open>frames.length\<close>.
\<close>

fun lookup_name_loop ::
    "heap \<Rightarrow> ref list \<Rightarrow> nat \<Rightarrow> Ast_Name \<Rightarrow> (scope \<times> number) option" where
  "lookup_name_loop h fs 0 name = None"
| "lookup_name_loop h fs (Suc p1) name =
     (case Frame_lookup_name (cells h (fs ! p1)) name of
        Some p2 \<Rightarrow> Some (Scope (int p1), p2)
      | None \<Rightarrow> lookup_name_loop h fs p1 name)"

definition lookup_name :: "heap \<Rightarrow> Environment \<Rightarrow> Ast_Name \<Rightarrow> error + (scope \<times> number)" where
  "lookup_name h env name =
     (case lookup_name_loop h (frames env) (length (frames env)) name of
        Some a \<Rightarrow> Inr a
      | None \<Rightarrow>
          (case Frame_lookup_name (cells h (global_frame env)) name of
             Some p2 \<Rightarrow> Inr (Global, p2)
           | None \<Rightarrow>
               (case internal_assertion True ''not in env'' of
                  Inl e \<Rightarrow> Inl e
                | Inr _ \<Rightarrow> Inl NullThrown)))"

text \<open>\<open>this.frames.map((f) => f.copy())\<close>, left to right.\<close>

fun map_copy :: "heap \<Rightarrow> ref list \<Rightarrow> ref list \<times> heap" where
  "map_copy h [] = ([], h)"
| "map_copy h (r # rs) =
     (let (r', h') = Frame_copy h r;
          (rs', h'') = map_copy h' rs
      in (r' # rs', h''))"

definition copy :: "heap \<Rightarrow> Environment \<Rightarrow> Environment \<times> heap" where
  "copy h env =
     (let (fs, h') = map_copy h (frames env)
      in (\<lparr>global_frame = global_frame env, frames = fs\<rparr>, h'))"

definition set_var ::
    "heap \<Rightarrow> Environment \<Rightarrow> Ast_ResolvedName \<Rightarrow> LiteralType
       \<Rightarrow> (error + Environment) \<times> heap" where
  "set_var h env name result =
     (let pos = env_pos name;
          (new_env, h1) = copy h env;
          frameidx = fst pos
      in case (case frameidx of
                 Global \<Rightarrow> Inr (global_frame new_env)
               | Scope i \<Rightarrow>
                   (let x = array_get (frames new_env) i
                    in case internal_assertion (x \<noteq> None)
                              ''Variable setting env out of range.'' of
                         Inl e \<Rightarrow> Inl e
                       | Inr _ \<Rightarrow> Inr (the x))) of
           Inl e \<Rightarrow> (Inl e, h1)
         | Inr frame \<Rightarrow>
             (case Frame_set_var h1 frame name result of
                (Inl e, h2) \<Rightarrow> (Inl e, h2)
              | (Inr _, h2) \<Rightarrow> (Inr new_env, h2)))"

text \<open>
  \<open>add_var_mut\<close> writes into the environment it is called on. When the frame stack is
  empty and the scope index is \<open>-1\<close>, the assertion passes, \<open>frames[-1]\<close> is
  \<open>undefined\<close>, and the call of \<open>add_var\<close> on it is a \<open>TypeError\<close>.
\<close>

definition add_var_mut ::
    "heap \<Rightarrow> Environment \<Rightarrow> Ast_ResolvedName \<Rightarrow> Ast_AstNode
       \<Rightarrow> (error + Environment) \<times> heap" where
  "add_var_mut h env name expr =
     (let fs = frames env;
          frameidx = fst (env_pos name)
      in case (case frameidx of
                 Global \<Rightarrow> Inr (Some (global_frame env))
               | Scope i \<Rightarrow>
                   (case internal_assertion (i = int (length fs) - 1)
                           ''Adding variable outside of current scope.'' of
                      Inl e \<Rightarrow> Inl e
                    | Inr _ \<Rightarrow> Inr (array_get fs (int (length fs) - 1)))) of
           Inl e \<Rightarrow> (Inl e, h)
         | Inr None \<Rightarrow> (Inl TypeError, h)
         | Inr (Some frame) \<Rightarrow>
             (case Frame_add_var h frame name expr of
                (Inl e, h') \<Rightarrow> (Inl e, h')
              | (Inr _, h') \<Rightarrow> (Inr env, h')))"

definition add_var ::
    "heap \<Rightarrow> Environment \<Rightarrow> Ast_ResolvedName \<Rightarrow> Ast_AstNode
       \<Rightarrow> (error + Environment) \<times> heap" where
  "add_var h env name expr =
     (let (new_env, h1) = copy h env
      in case add_var_mut h1 new_env name expr of
           (Inl e, h2) \<Rightarrow> (Inl e, h2)
         | (Inr _, h2) \<Rightarrow> (Inr new_env, h2))"

definition add_frame :: "heap \<Rightarrow> Environment \<Rightarrow> Environment \<times> heap" where
  "add_frame h env =
     (let (new_frames, h1) = map_copy h (frames env);
          (f, h2) = alloc h1 (Frame [])
      in (\<lparr>global_frame = global_frame env, frames = new_frames @ [f]\<rparr>, h2))"

definition remove_frame :: "heap \<Rightarrow> Environment \<Rightarrow> (error + Environment) \<times> heap" where
  "remove_frame h env =
     (case internal_assertion (length (frames env) > 0)
             ''Removing frame from an empty environment.'' of
        Inl e \<Rightarrow> (Inl e, h)
      | Inr _ \<Rightarrow>
          (let (fs, h1) = map_copy h (take (length (frames env) - 1) (frames env))
           in (Inr \<lparr>global_frame = global_frame env, frames = fs\<rparr>, h1)))"

definition is_global_scope :: "Environment \<Rightarrow> bool" where
  "is_global_scope env = (length (frames env) = 0)"


section \<open>Well-formed stores\<close>

text \<open>
  A reference held by an environment points to a frame that was allocated: JavaScript
  has no dangling references, and a fresh object never coincides with an existing one.
\<close>

definition allocated :: "heap \<Rightarrow> Environment \<Rightarrow> bool" where
  "allocated h env =
     (global_frame env < next_ref h \<and> (\<forall>r \<in> set (frames env). r < next_ref h))"


section \<open>The specification's vocabulary\<close>

text \<open>The frame a resolved name addresses: the global frame, or \<open>frame_stack[idx]\<close>.\<close>

definition addressed_frame :: "heap \<Rightarrow> Environment \<Rightarrow> Ast_ResolvedName \<Rightarrow> Frame option" where
  "addressed_frame h env name =
     (case fst (env_pos name) of
        Global \<Rightarrow> Some (cells h (global_frame env))
      | Scope i \<Rightarrow>
          (if 0 \<le> i \<and> i < int (length (frames env))
           then Some (cells h (frames env ! nat i)) else None))"

text \<open>The (symbol, node) pair stored at the addressed slot, if the slot is occupied.\<close>

definition binding_at :: "heap \<Rightarrow> Environment \<Rightarrow> Ast_ResolvedName \<Rightarrow> FrameSymbol option" where
  "binding_at h env name =
     (case addressed_frame h env name of
        None \<Rightarrow> None
      | Some f \<Rightarrow> map_of (frame_items f) (snd (env_pos name)))"

definition slot_occupied :: "heap \<Rightarrow> Environment \<Rightarrow> Ast_ResolvedName \<Rightarrow> bool" where
  "slot_occupied h env name = (binding_at h env name \<noteq> None)"

text \<open>A frame contains a symbol when one of its entries carries it.\<close>

definition contains_sym :: "Frame \<Rightarrow> string \<Rightarrow> bool" where
  "contains_sym f s = (s \<in> set (map (\<lambda>(p, b). fsym b) (frame_items f)))"

text \<open>The slot of the first entry, in insertion order, that carries the symbol.\<close>

definition first_slot :: "Frame \<Rightarrow> string \<Rightarrow> number option" where
  "first_slot f s = map_option fst (find (\<lambda>(p, b). fsym b = s) (frame_items f))"


section \<open>A concrete store\<close>

text \<open>
  A global frame binding \<open>g\<close>, and two stacked frames: the outer binds \<open>x\<close> and
  \<open>y\<close>, the inner binds \<open>z\<close> and then \<open>x\<close>.
\<close>

definition demo_heap :: heap where
  "demo_heap =
     \<lparr>cells = (\<lambda>_. Frame [])
        (0 := Frame [(0, FrameSymbol ''g'' (Ast_Literal (Boolean True)))],
         1 := Frame [(0, FrameSymbol ''x'' (Ast_Literal (Number 1))),
                     (1, FrameSymbol ''y'' (Ast_Literal (Number 2)))],
         2 := Frame [(3, FrameSymbol ''z'' (Ast_Literal (Number 3))),
                     (0, FrameSymbol ''x'' (Ast_Literal (Number 7)))]),
      next_ref = 3\<rparr>"

definition demo_env :: Environment where
  "demo_env = \<lparr>global_frame = 0, frames = [1, 2]\<rparr>"

definition demo_global_env :: Environment where
  "demo_global_env = \<lparr>global_frame = 0, frames = []\<rparr>"

definition demo_g :: Ast_ResolvedName where
  "demo_g = \<lparr>sym = ''g'', env_pos = (Global, 0)\<rparr>"

definition demo_x :: Ast_ResolvedName where
  "demo_x = \<lparr>sym = ''x'', env_pos = (Scope 1, 0)\<rparr>"

definition demo_y :: Ast_ResolvedName where
  "demo_y = \<lparr>sym = ''y'', env_pos = (Scope 0, 1)\<rparr>"

definition demo_w :: Ast_ResolvedName where
  "demo_w = \<lparr>sym = ''w'', env_pos = (Scope 0, 5)\<rparr>"


section \<open>Supporting lemmas\<close>

subsection \<open>Maps, allocation and copies\<close>

lemma map_of_Map_set: "map_of (Map_set m k v) = (map_of m)(k \<mapsto> v)"
  by (induction m k v rule: Map_set.induct) (auto simp: fun_eq_iff)

lemma Frame_copy_simps:
  "fst (Frame_copy h r) = next_ref h"
  "next_ref (snd (Frame_copy h r)) = Suc (next_ref h)"
  "cells (snd (Frame_copy h r)) = (cells h)(next_ref h := cells h r)"
  by (simp_all add: Frame_copy_def alloc_def)

lemma map_copy_Cons:
  "map_copy h (r # rs) =
     (next_ref h # fst (map_copy (snd (Frame_copy h r)) rs),
      snd (map_copy (snd (Frame_copy h r)) rs))"
  by (simp add: Let_def split_beta Frame_copy_simps)

lemma map_copy_length: "length (fst (map_copy h rs)) = length rs"
  by (induction rs arbitrary: h) (simp_all add: map_copy_Cons del: map_copy.simps(2))

lemma map_copy_next: "next_ref (snd (map_copy h rs)) = next_ref h + length rs"
  by (induction rs arbitrary: h)
     (simp_all add: map_copy_Cons Frame_copy_simps del: map_copy.simps(2))

lemma map_copy_old: "r < next_ref h \<Longrightarrow> cells (snd (map_copy h rs)) r = cells h r"
  by (induction rs arbitrary: h)
     (simp_all add: map_copy_Cons Frame_copy_simps del: map_copy.simps(2))

lemma map_copy_nth: "i < length rs \<Longrightarrow> fst (map_copy h rs) ! i = next_ref h + i"
proof (induction rs arbitrary: h i)
  case Nil
  then show ?case by simp
next
  case (Cons a rs)
  show ?case
  proof (cases i)
    case 0
    then show ?thesis by (simp add: map_copy_Cons del: map_copy.simps(2))
  next
    case (Suc k)
    then show ?thesis
      using Cons.IH [of k "snd (Frame_copy h a)"] Cons.prems
      by (simp add: map_copy_Cons Frame_copy_simps del: map_copy.simps(2))
  qed
qed

lemma map_copy_cells:
  "\<forall>r \<in> set rs. r < next_ref h \<Longrightarrow> i < length rs \<Longrightarrow>
     cells (snd (map_copy h rs)) (next_ref h + i) = cells h (rs ! i)"
proof (induction rs arbitrary: h i)
  case Nil
  then show ?case by simp
next
  case (Cons a rs)
  let ?h' = "snd (Frame_copy h a)"
  show ?case
  proof (cases i)
    case 0
    have "cells (snd (map_copy ?h' rs)) (next_ref h) = cells ?h' (next_ref h)"
      by (rule map_copy_old) (simp add: Frame_copy_simps)
    then show ?thesis using 0
      by (simp add: map_copy_Cons Frame_copy_simps del: map_copy.simps(2))
  next
    case (Suc k)
    have "\<forall>r \<in> set rs. r < next_ref ?h'"
      using Cons.prems by (auto simp: Frame_copy_simps)
    then have "cells (snd (map_copy ?h' rs)) (next_ref ?h' + k) = cells ?h' (rs ! k)"
      using Cons.IH [of ?h' k] Cons.prems Suc by simp
    moreover have "rs ! k < next_ref h"
      using Cons.prems Suc by auto
    ultimately show ?thesis using Suc
      by (simp add: map_copy_Cons Frame_copy_simps del: map_copy.simps(2))
  qed
qed

lemma map_copy_fresh:
  "r \<in> set (fst (map_copy h rs)) \<Longrightarrow> next_ref h \<le> r \<and> r < next_ref h + length rs"
  using map_copy_nth [of _ rs h] map_copy_length [of h rs]
  by (auto simp: in_set_conv_nth)

lemma copy_simps:
  "global_frame (fst (copy h env)) = global_frame env"
  "frames (fst (copy h env)) = fst (map_copy h (frames env))"
  "snd (copy h env) = snd (map_copy h (frames env))"
  by (simp_all add: copy_def split_beta)

lemma array_get_map_copy:
  "array_get (fst (map_copy h rs)) i =
     (if 0 \<le> i \<and> i < int (length rs) then Some (next_ref h + nat i) else None)"
  by (auto simp: array_get_def map_copy_length map_copy_nth nat_less_iff)

subsection \<open>The operations, unfolded\<close>

lemma Frame_lookup_eq:
  "Frame_lookup f n =
     (case map_of (frame_items f) (snd (env_pos n)) of
        None \<Rightarrow> Inl (InternalAssertionError ''Variable lookup frame out of range.'')
      | Some b \<Rightarrow>
          if fsym b = sym n then Inr (ast b)
          else Inl (InternalAssertionError ''Variable lookup symbol mismatch.''))"
  by (auto simp: Frame_lookup_def internal_assertion_def Map_get_def Let_def
           split: option.splits)

lemma Frame_set_var_eq:
  "Frame_set_var h r n v =
     (case map_of (frame_items (cells h r)) (snd (env_pos n)) of
        None \<Rightarrow> (Inl (InternalAssertionError ''Variable setting frame out of range.''), h)
      | Some b \<Rightarrow>
          if fsym b = sym n
          then (Inr (), write_frame h r
                  (Frame (Map_set (frame_items (cells h r)) (snd (env_pos n))
                     (FrameSymbol (sym n) (Ast_Literal v)))))
          else (Inl (InternalAssertionError ''Variable setting symbol mismatch.''), h))"
  by (simp add: Frame_set_var_def internal_assertion_def Map_get_def Let_def
           split: option.splits)

lemma Frame_add_var_eq:
  "Frame_add_var h r n x =
     (case map_of (frame_items (cells h r)) (snd (env_pos n)) of
        Some b \<Rightarrow> (Inl (InternalAssertionError ''Attempted to add variable that exists.''), h)
      | None \<Rightarrow>
          (Inr (), write_frame h r
             (Frame (Map_set (frame_items (cells h r)) (snd (env_pos n))
                (FrameSymbol (sym n) x)))))"
  by (simp add: Frame_add_var_def internal_assertion_def Map_has_def split: option.splits)

lemma Frame_add_var_next: "next_ref (snd (Frame_add_var h r n x)) = next_ref h"
  by (simp add: Frame_add_var_eq write_frame_def split: option.splits)

lemma lookup_global: "fst (env_pos m) = Global \<Longrightarrow>
     lookup h env m = Frame_lookup (cells h (global_frame env)) m"
  by (simp add: lookup_def)

lemma lookup_scope: "fst (env_pos m) = Scope i \<Longrightarrow>
     lookup h env m =
       (if 0 \<le> i \<and> i < int (length (frames env))
        then Frame_lookup (cells h (frames env ! nat i)) m
        else Inl (InternalAssertionError ''Variable lookup env out of range.''))"
  by (simp add: lookup_def array_get_def internal_assertion_def)

lemma set_var_Global:
  "fst (env_pos n) = Global \<Longrightarrow>
     set_var h env n v =
       (case Frame_set_var (snd (map_copy h (frames env))) (global_frame env) n v of
          (Inl e, h2) \<Rightarrow> (Inl e, h2)
        | (Inr _, h2) \<Rightarrow>
            (Inr \<lparr>global_frame = global_frame env, frames = fst (map_copy h (frames env))\<rparr>,
             h2))"
  by (simp add: set_var_def copy_def split_beta Let_def split: sum.splits)

lemma set_var_Scope:
  "fst (env_pos n) = Scope i \<Longrightarrow>
     set_var h env n v =
       (if 0 \<le> i \<and> i < int (length (frames env))
        then case Frame_set_var (snd (map_copy h (frames env))) (next_ref h + nat i) n v of
               (Inl e, h2) \<Rightarrow> (Inl e, h2)
             | (Inr _, h2) \<Rightarrow>
                 (Inr \<lparr>global_frame = global_frame env,
                       frames = fst (map_copy h (frames env))\<rparr>, h2)
        else (Inl (InternalAssertionError ''Variable setting env out of range.''),
              snd (map_copy h (frames env))))"
  by (auto simp: set_var_def copy_def split_beta Let_def array_get_map_copy
        internal_assertion_def split: sum.splits)

lemma set_var_success_Global:
  assumes "fst (env_pos n) = Global" and "set_var h env n v = (Inr env', h')"
  shows "env' = \<lparr>global_frame = global_frame env, frames = fst (map_copy h (frames env))\<rparr>
         \<and> h' = write_frame (snd (map_copy h (frames env))) (global_frame env)
                  (Frame (Map_set (frame_items (cells (snd (map_copy h (frames env)))
                                                  (global_frame env)))
                            (snd (env_pos n)) (FrameSymbol (sym n) (Ast_Literal v))))"
  using assms
  by (auto simp: set_var_Global Frame_set_var_eq split: option.splits if_splits)

lemma set_var_success_Scope:
  assumes "fst (env_pos n) = Scope i" and "set_var h env n v = (Inr env', h')"
  shows "0 \<le> i \<and> i < int (length (frames env))
         \<and> env' = \<lparr>global_frame = global_frame env, frames = fst (map_copy h (frames env))\<rparr>
         \<and> h' = write_frame (snd (map_copy h (frames env))) (next_ref h + nat i)
                  (Frame (Map_set (frame_items (cells (snd (map_copy h (frames env)))
                                                  (next_ref h + nat i)))
                            (snd (env_pos n)) (FrameSymbol (sym n) (Ast_Literal v))))"
  using assms
  by (auto simp: set_var_Scope Frame_set_var_eq split: option.splits if_splits)

lemma add_var_mut_Global:
  "fst (env_pos n) = Global \<Longrightarrow>
     add_var_mut h env n x =
       (case Frame_add_var h (global_frame env) n x of
          (Inl e, h') \<Rightarrow> (Inl e, h')
        | (Inr _, h') \<Rightarrow> (Inr env, h'))"
  by (simp add: add_var_mut_def Let_def)

lemma add_var_mut_Scope:
  "fst (env_pos n) = Scope i \<Longrightarrow>
     add_var_mut h env n x =
       (if i \<noteq> int (length (frames env)) - 1
        then (Inl (InternalAssertionError ''Adding variable outside of current scope.''), h)
        else if frames env = [] then (Inl TypeError, h)
        else case Frame_add_var h (last (frames env)) n x of
               (Inl e, h') \<Rightarrow> (Inl e, h')
             | (Inr _, h') \<Rightarrow> (Inr env, h'))"
  by (auto simp: add_var_mut_def Let_def internal_assertion_def array_get_def last_conv_nth
        nat_diff_distrib')

lemma add_var_mut_next: "next_ref (snd (add_var_mut h env n x)) = next_ref h"
  by (cases "fst (env_pos n)")
     (auto simp: add_var_mut_Global add_var_mut_Scope Frame_add_var_next split_beta
        split: sum.splits)

lemma add_var_eq:
  "add_var h env n x =
     (case add_var_mut (snd (copy h env)) (fst (copy h env)) n x of
        (Inl e, h2) \<Rightarrow> (Inl e, h2)
      | (Inr _, h2) \<Rightarrow> (Inr (fst (copy h env)), h2))"
  by (simp add: add_var_def split_beta)

subsection \<open>Lookups that a write does not reach\<close>

lemma lookup_cells_cong:
  assumes "cells h' (global_frame env) = cells h (global_frame env)"
    and "\<And>r. r \<in> set (frames env) \<Longrightarrow> cells h' r = cells h r"
  shows "lookup h' env m = lookup h env m"
proof (cases "fst (env_pos m)")
  case Global
  then show ?thesis
    using assms(1) by (simp add: lookup_global)
next
  case (Scope i)
  then show ?thesis
    using assms(2) by (auto simp: lookup_scope nat_less_iff)
qed

lemma lookup_same_cells:
  assumes "allocated h env"
    and "\<And>r. r < next_ref h \<Longrightarrow> cells h' r = cells h r"
  shows "lookup h' env m = lookup h env m"
proof (cases "fst (env_pos m)")
  case Global
  then show ?thesis
    using assms by (simp add: lookup_global allocated_def)
next
  case (Scope i)
  then show ?thesis
    using assms by (auto simp: lookup_scope allocated_def nat_less_iff)
qed

lemma map_copy_same_cells:
  "allocated h env \<Longrightarrow> lookup (snd (map_copy h rs)) env m = lookup h env m"
  by (rule lookup_same_cells) (simp_all add: map_copy_old)

lemma lookup_write_other:
  assumes "allocated h0 env" and "next_ref h0 \<le> r"
  shows "lookup (write_frame h r f) env m = lookup h env m"
  using assms by (intro lookup_cells_cong) (auto simp: write_frame_def allocated_def)

lemma Frame_lookup_Map_set_other:
  "snd (env_pos m) \<noteq> p \<Longrightarrow>
     Frame_lookup (Frame (Map_set (frame_items f) p b)) m = Frame_lookup f m"
  by (simp add: Frame_lookup_eq map_of_Map_set)

lemma lookup_write_global_other:
  assumes "global_frame env \<notin> set (frames env)"
    and "cells h1 (global_frame env) = cells h (global_frame env)"
    and "\<And>r. r \<in> set (frames env) \<Longrightarrow> cells h1 r = cells h r"
    and "env_pos m \<noteq> (Global, p)"
  shows "lookup (write_frame h1 (global_frame env)
                   (Frame (Map_set (frame_items (cells h1 (global_frame env))) p b))) env m
           = lookup h env m"
proof (cases "fst (env_pos m)")
  case Global
  then have "snd (env_pos m) \<noteq> p"
    using assms(4) by (simp add: prod_eq_iff)
  then show ?thesis
    using Global assms(2)
    by (simp add: lookup_global write_frame_def Frame_lookup_Map_set_other)
next
  case (Scope j)
  show ?thesis
  proof (cases "0 \<le> j \<and> j < int (length (frames env))")
    case True
    then have "frames env ! nat j \<in> set (frames env)"
      by (simp add: nat_less_iff)
    then show ?thesis
      using Scope True assms(1) assms(3) [of "frames env ! nat j"]
      by (auto simp: lookup_scope write_frame_def)
  next
    case False
    then show ?thesis
      using Scope by (auto simp: lookup_scope)
  qed
qed

subsection \<open>The search for a bare name\<close>

lemma entries_find_eq:
  "entries_find items (Ast_Name s) = map_option fst (find (\<lambda>(p, b). fsym b = s) items)"
  by (induction items) auto

lemma Frame_lookup_name_eq: "Frame_lookup_name f (Ast_Name s) = first_slot f s"
  by (simp add: Frame_lookup_name_def first_slot_def entries_find_eq)

lemma first_slot_None_iff: "first_slot f s = None \<longleftrightarrow> \<not> contains_sym f s"
  by (auto simp: first_slot_def contains_sym_def find_None_iff)

lemma lookup_name_loop_None:
  "\<forall>j<k. \<not> contains_sym (cells h (fs ! j)) s \<Longrightarrow>
     lookup_name_loop h fs k (Ast_Name s) = None"
proof (induction k)
  case 0
  then show ?case by simp
next
  case (Suc k)
  then have "first_slot (cells h (fs ! k)) s = None"
    by (simp add: first_slot_None_iff)
  then show ?case
    using Suc by (simp add: Frame_lookup_name_eq)
qed

lemma lookup_name_loop_Some:
  "i < k \<Longrightarrow> first_slot (cells h (fs ! i)) s = Some p \<Longrightarrow>
   \<forall>j. i < j \<and> j < k \<longrightarrow> \<not> contains_sym (cells h (fs ! j)) s \<Longrightarrow>
     lookup_name_loop h fs k (Ast_Name s) = Some (Scope (int i), p)"
proof (induction k)
  case 0
  then show ?case by simp
next
  case (Suc k)
  show ?case
  proof (cases "i = k")
    case True
    then show ?thesis using Suc.prems by (simp add: Frame_lookup_name_eq)
  next
    case False
    then have "i < k" using Suc.prems by simp
    moreover have "first_slot (cells h (fs ! k)) s = None"
      using Suc.prems \<open>i < k\<close> by (simp add: first_slot_None_iff)
    ultimately show ?thesis
      using Suc by (simp add: Frame_lookup_name_eq)
  qed
qed

subsection \<open>Well-formedness is an invariant of the interface\<close>

text \<open>
  Allocated references and a global frame that is not also on the stack hold of every
  environment the interface can build: \<open>Environment.empty\<close> establishes them and
  every operation keeps them.
\<close>

lemma empty_well_formed:
  "allocated (snd (Environment_empty h)) (fst (Environment_empty h))
   \<and> global_frame (fst (Environment_empty h)) \<notin> set (frames (fst (Environment_empty h)))"
  by (simp add: Environment_empty_def alloc_def allocated_def)

lemma copy_well_formed:
  assumes "allocated h env"
  shows "allocated (snd (copy h env)) (fst (copy h env))
         \<and> global_frame (fst (copy h env)) \<notin> set (frames (fst (copy h env)))"
  using assms map_copy_fresh [of _ h "frames env"]
  by (fastforce simp: allocated_def copy_simps map_copy_next)

lemma add_frame_well_formed:
  assumes "allocated h env"
  shows "allocated (snd (add_frame h env)) (fst (add_frame h env))
         \<and> global_frame (fst (add_frame h env)) \<notin> set (frames (fst (add_frame h env)))"
  using assms map_copy_fresh [of _ h "frames env"]
  by (fastforce simp: allocated_def add_frame_def split_beta alloc_def map_copy_next)

lemma remove_frame_well_formed:
  assumes "allocated h env" and "remove_frame h env = (Inr env', h')"
  shows "allocated h' env' \<and> global_frame env' \<notin> set (frames env')"
proof -
  let ?rs = "take (length (frames env) - 1) (frames env)"
  have e: "env' = \<lparr>global_frame = global_frame env, frames = fst (map_copy h ?rs)\<rparr>"
    and h: "h' = snd (map_copy h ?rs)"
    using assms(2)
    by (auto simp: remove_frame_def split_beta internal_assertion_def split: if_splits)
  show ?thesis
    using assms(1) map_copy_fresh [of _ h ?rs]
    unfolding e h by (fastforce simp: allocated_def map_copy_next)
qed

lemma set_var_well_formed:
  assumes "allocated h env" and "set_var h env n v = (Inr env', h')"
  shows "allocated h' env' \<and> global_frame env' \<notin> set (frames env')"
proof (cases "fst (env_pos n)")
  case Global
  show ?thesis
    using assms(1) map_copy_fresh [of _ h "frames env"]
      set_var_success_Global [OF Global assms(2)]
    by (fastforce simp: allocated_def map_copy_next write_frame_def)
next
  case (Scope i)
  show ?thesis
    using assms(1) map_copy_fresh [of _ h "frames env"]
      set_var_success_Scope [OF Scope assms(2)]
    by (fastforce simp: allocated_def map_copy_next write_frame_def)
qed

lemma add_var_well_formed:
  assumes "allocated h env" and "add_var h env n x = (Inr env', h')"
  shows "allocated h' env' \<and> global_frame env' \<notin> set (frames env')"
proof -
  have e: "env' = fst (copy h env)"
    and h: "h' = snd (add_var_mut (snd (copy h env)) (fst (copy h env)) n x)"
    using assms(2) by (auto simp: add_var_eq split_beta split: sum.splits)
  show ?thesis
    using copy_well_formed [OF assms(1)]
    unfolding e h by (simp add: allocated_def add_var_mut_next)
qed

text \<open>A name bound by \<open>add_var\<close> is resolved by \<open>lookup\<close> in the returned environment.\<close>

lemma add_var_then_lookup:
  assumes ok: "allocated h env" and av: "add_var h env n x = (Inr env', h')"
  shows "lookup h' env' n = Inr x"
proof (cases "fst (env_pos n)")
  case Global
  then show ?thesis
    using av
    by (auto simp: add_var_eq add_var_mut_Global copy_simps Frame_add_var_eq lookup_global
          Frame_lookup_eq write_frame_def map_of_Map_set split: option.splits)
next
  case (Scope i)
  show ?thesis
  proof (cases "frames env = []")
    case True
    then show ?thesis
      using av Scope
      by (auto simp: add_var_eq add_var_mut_Scope copy_simps split: if_splits)
  next
    case False
    then obtain k where len: "length (frames env) = Suc k"
      by (cases "frames env") auto
    have l: "last (fst (map_copy h (frames env))) = next_ref h + k"
      and nth: "fst (map_copy h (frames env)) ! k = next_ref h + k"
      using len map_copy_nth [of k "frames env" h] map_copy_length [of h "frames env"]
      by (simp_all add: last_conv_nth flip: length_greater_0_conv)
    have ne: "fst (map_copy h (frames env)) \<noteq> []"
      using len map_copy_length [of h "frames env"] by auto
    from av Scope len have i: "i = int k"
      by (auto simp: add_var_eq add_var_mut_Scope copy_simps map_copy_length
            split: if_splits)
    show ?thesis
      using av Scope len l nth ne i
      by (auto simp: add_var_eq add_var_mut_Scope copy_simps Frame_add_var_eq lookup_scope
            Frame_lookup_eq write_frame_def map_of_Map_set map_copy_length
            split: option.splits if_splits)
  qed
qed

section \<open>Construction-time invariants of the AST\<close>

text \<open>
  Claim C6. Constructing a \<open>RegulativeRuleConclusion\<close> fails whenever neither
  \<open>fulfilled\<close> nor \<open>performed\<close> is \<open>true\<close> (false or absent, in any combination), and
  succeeds, storing the fields, as soon as one of them is \<open>true\<close>.
\<close>

theorem RegulativeRuleConclusion_new_succeeds_iff:
  "RegulativeRuleConclusion_new f p ms cs toks =
     (if f = Some True \<or> p = Some True
      then Inr \<lparr>fulfilled = f, performed = p, mutations = ms, conclusions = cs,
                conclusion_tokens = toks\<rparr>
      else Inl (InternalAssertionError
                  ''RegulativeRuleConclusion requires one of fulfilled or performed!''))
   \<and> ConstructionError (InternalAssertionError
                  ''RegulativeRuleConclusion requires one of fulfilled or performed!'')"
  by (cases f; cases p)
     (auto simp: RegulativeRuleConclusion_new_def internal_assertion_def
        construction_messages_def)

theorem RegulativeRuleConclusion_new_succeeds_iff_witness:
  "isl (RegulativeRuleConclusion_new (Some False) (Some False) [] [] [])
   \<and> isl (RegulativeRuleConclusion_new None None [] [] [])
   \<and> isl (RegulativeRuleConclusion_new None (Some False) [] [] [])
   \<and> isl (RegulativeRuleConclusion_new (Some False) None [] [] [])
   \<and> RegulativeRuleConclusion_new None (Some True) [] [] []
       = Inr \<lparr>fulfilled = None, performed = Some True, mutations = [], conclusions = [],
               conclusion_tokens = []\<rparr>
   \<and> \<not> isl (RegulativeRuleConclusion_new (Some True) (Some False) [] [] [])"
  using RegulativeRuleConclusion_new_succeeds_iff [of "Some False" "Some False" "[]" "[]" "[]"]
    RegulativeRuleConclusion_new_succeeds_iff [of None None "[]" "[]" "[]"]
    RegulativeRuleConclusion_new_succeeds_iff [of None "Some False" "[]" "[]" "[]"]
    RegulativeRuleConclusion_new_succeeds_iff [of "Some False" None "[]" "[]" "[]"]
    RegulativeRuleConclusion_new_succeeds_iff [of None "Some True" "[]" "[]" "[]"]
    RegulativeRuleConclusion_new_succeeds_iff [of "Some True" "Some False" "[]" "[]" "[]"]
  by simp

text \<open>
  Claim C7. Constructing a \<open>TemporalConstraint\<close> with \<open>is_relative = true\<close> and an
  \<open>AbsoluteTime\<close> fails, and so does \<open>is_relative = false\<close> with a \<open>RelativeTime\<close>;
  construction succeeds exactly when the flag agrees with the variant of the timestamp.
\<close>

theorem TemporalConstraint_new_succeeds_iff:
  "TemporalConstraint_new True (AbsoluteTime d m y ts) toks
     = Inl (InternalAssertionError ''is_relative does not match with the given timestamp'')
   \<and> TemporalConstraint_new False (RelativeTime d m y ts) toks
     = Inl (InternalAssertionError ''is_relative does not match with the given timestamp'')
   \<and> ConstructionError
       (InternalAssertionError ''is_relative does not match with the given timestamp'')
   \<and> TemporalConstraint_new b t toks =
       (if b = is_RelativeTime t
        then Inr \<lparr>is_relative = b, timestamp = t, temporal_tokens = toks\<rparr>
        else Inl (InternalAssertionError
                    ''is_relative does not match with the given timestamp''))"
  by (cases t; cases b)
     (simp_all add: TemporalConstraint_new_def internal_assertion_def
        construction_messages_def)

theorem TemporalConstraint_new_succeeds_iff_witness:
  "isl (TemporalConstraint_new True (AbsoluteTime 1 2 2023 []) [])
   \<and> isl (TemporalConstraint_new False (RelativeTime 30 0 0 []) [])
   \<and> TemporalConstraint_new True (RelativeTime 30 0 0 []) []
       = Inr \<lparr>is_relative = True, timestamp = RelativeTime 30 0 0 [], temporal_tokens = []\<rparr>
   \<and> TemporalConstraint_new False (AbsoluteTime 1 2 2023 []) []
       = Inr \<lparr>is_relative = False, timestamp = AbsoluteTime 1 2 2023 [],
               temporal_tokens = []\<rparr>"
  using TemporalConstraint_new_succeeds_iff [of 1 2 2023 "[]" "[]" True "RelativeTime 30 0 0 []"]
    TemporalConstraint_new_succeeds_iff [of 30 0 0 "[]" "[]" False "AbsoluteTime 1 2 2023 []"]
  by simp

section \<open>Reading the environment\<close>

text \<open>
  Claim C3. \<open>lookup\<close> resolves the global frame or \<open>frame_stack[idx]\<close> by the name's
  address. It fails, with a \<open>ScopeError\<close>, exactly when the scope index is out of
  range of the frame stack, the slot is unoccupied, or the symbol stored at the slot
  differs from the queried one; otherwise it returns the node bound at the slot.
\<close>

theorem lookup_fails_exactly:
  "case lookup h env n of
     Inl e \<Rightarrow>
       ScopeError e
       \<and> (addressed_frame h env n = None
          \<or> binding_at h env n = None
          \<or> (\<exists>b. binding_at h env n = Some b \<and> fsym b \<noteq> sym n))
   | Inr a \<Rightarrow>
       addressed_frame h env n \<noteq> None
       \<and> (\<exists>b. binding_at h env n = Some b \<and> fsym b = sym n \<and> ast b = a)"
proof (cases "fst (env_pos n)")
  case Global
  then show ?thesis
    by (simp add: lookup_global Frame_lookup_eq addressed_frame_def binding_at_def
          scope_messages_def split: option.splits)
next
  case (Scope i)
  then show ?thesis
    by (simp add: lookup_scope Frame_lookup_eq addressed_frame_def binding_at_def
          scope_messages_def split: option.splits)
qed

theorem lookup_fails_exactly_witness:
  "lookup demo_heap demo_env demo_y = Inr (Ast_Literal (Number 2))
   \<and> binding_at demo_heap demo_env demo_y = Some (FrameSymbol ''y'' (Ast_Literal (Number 2)))
   \<and> lookup demo_heap demo_env demo_w
       = Inl (InternalAssertionError ''Variable lookup frame out of range.'')
   \<and> binding_at demo_heap demo_env demo_w = None
   \<and> lookup demo_heap demo_env \<lparr>sym = ''x'', env_pos = (Scope 2, 0)\<rparr>
       = Inl (InternalAssertionError ''Variable lookup env out of range.'')
   \<and> addressed_frame demo_heap demo_env \<lparr>sym = ''x'', env_pos = (Scope 2, 0)\<rparr> = None
   \<and> lookup demo_heap demo_env \<lparr>sym = ''x'', env_pos = (Scope 0, 1)\<rparr>
       = Inl (InternalAssertionError ''Variable lookup symbol mismatch.'')"
proof -
  have 1: "lookup demo_heap demo_env demo_y = Inr (Ast_Literal (Number 2))"
    by (simp add: lookup_def demo_heap_def demo_env_def demo_y_def array_get_def
          internal_assertion_def Frame_lookup_def Map_get_def)
  have 2: "lookup demo_heap demo_env demo_w
             = Inl (InternalAssertionError ''Variable lookup frame out of range.'')"
    by (simp add: lookup_def demo_heap_def demo_env_def demo_w_def array_get_def
          internal_assertion_def Frame_lookup_def Map_get_def)
  have 3: "lookup demo_heap demo_env \<lparr>sym = ''x'', env_pos = (Scope 2, 0)\<rparr>
             = Inl (InternalAssertionError ''Variable lookup env out of range.'')"
    by (simp add: lookup_def demo_heap_def demo_env_def array_get_def
          internal_assertion_def Frame_lookup_def Map_get_def)
  have 4: "lookup demo_heap demo_env \<lparr>sym = ''x'', env_pos = (Scope 0, 1)\<rparr>
             = Inl (InternalAssertionError ''Variable lookup symbol mismatch.'')"
    by (simp add: lookup_def demo_heap_def demo_env_def array_get_def
          internal_assertion_def Frame_lookup_def Map_get_def)
  have 5: "binding_at demo_heap demo_env demo_w = None"
    by (simp add: binding_at_def addressed_frame_def demo_heap_def demo_env_def demo_w_def)
  have 6: "addressed_frame demo_heap demo_env \<lparr>sym = ''x'', env_pos = (Scope 2, 0)\<rparr> = None"
    by (simp add: addressed_frame_def demo_env_def)
  from lookup_fails_exactly [of demo_heap demo_env demo_y] 1
  obtain b where "binding_at demo_heap demo_env demo_y = Some b"
    and "fsym b = ''y''" and "ast b = Ast_Literal (Number 2)"
    by (auto simp: demo_y_def)
  then have "binding_at demo_heap demo_env demo_y
               = Some (FrameSymbol ''y'' (Ast_Literal (Number 2)))"
    by (cases b) simp
  with 1 2 3 4 5 6 show ?thesis by simp
qed

text \<open>
  Claim C4, as amended. \<open>lookup_name\<close> searches the frame stack from the innermost frame
  outward and then the global frame. It returns the scope index of the first frame that
  contains the symbol, with the slot of that frame's first entry carrying the symbol.
  When no frame contains the symbol it fails: it does not return an empty optional.
\<close>

theorem lookup_name_search:
  "(\<forall>i p. i < length (frames env)
           \<and> first_slot (cells h (frames env ! i)) s = Some p
           \<and> (\<forall>j. i < j \<and> j < length (frames env)
                  \<longrightarrow> \<not> contains_sym (cells h (frames env ! j)) s)
        \<longrightarrow> lookup_name h env (Ast_Name s) = Inr (Scope (int i), p))
   \<and> (\<forall>p. (\<forall>j<length (frames env). \<not> contains_sym (cells h (frames env ! j)) s)
           \<and> first_slot (cells h (global_frame env)) s = Some p
        \<longrightarrow> lookup_name h env (Ast_Name s) = Inr (Global, p))
   \<and> ((\<forall>j<length (frames env). \<not> contains_sym (cells h (frames env ! j)) s)
           \<and> \<not> contains_sym (cells h (global_frame env)) s
        \<longrightarrow> isl (lookup_name h env (Ast_Name s)))
   \<and> (\<forall>f. contains_sym f s \<longleftrightarrow> first_slot f s \<noteq> None)"
proof -
  have 1: "lookup_name h env (Ast_Name s) = Inr (Scope (int i), p)"
    if "i < length (frames env)" "first_slot (cells h (frames env ! i)) s = Some p"
      "\<forall>j. i < j \<and> j < length (frames env) \<longrightarrow> \<not> contains_sym (cells h (frames env ! j)) s"
    for i p
    using lookup_name_loop_Some [OF that] by (simp add: lookup_name_def)
  have 2: "lookup_name h env (Ast_Name s) = Inr (Global, p)"
    if "\<forall>j<length (frames env). \<not> contains_sym (cells h (frames env ! j)) s"
      "first_slot (cells h (global_frame env)) s = Some p"
    for p
    using lookup_name_loop_None [OF that(1)] that(2)
    by (simp add: lookup_name_def Frame_lookup_name_eq)
  have 3: "isl (lookup_name h env (Ast_Name s))"
    if "\<forall>j<length (frames env). \<not> contains_sym (cells h (frames env ! j)) s"
      "\<not> contains_sym (cells h (global_frame env)) s"
    using lookup_name_loop_None [OF that(1)] that(2)
    by (simp add: lookup_name_def Frame_lookup_name_eq first_slot_None_iff [symmetric]
          internal_assertion_def)
  have 4: "contains_sym f s \<longleftrightarrow> first_slot f s \<noteq> None" for f
    by (simp add: first_slot_None_iff)
  from 1 2 3 4 show ?thesis by blast
qed

theorem lookup_name_search_witness:
  "lookup_name demo_heap demo_env (Ast_Name ''x'') = Inr (Scope 1, 0)
   \<and> lookup_name demo_heap demo_env (Ast_Name ''y'') = Inr (Scope 0, 1)
   \<and> lookup_name demo_heap demo_env (Ast_Name ''g'') = Inr (Global, 0)
   \<and> isl (lookup_name demo_heap demo_env (Ast_Name ''nowhere''))"
proof -
  have f: "frames demo_env = [1, 2]" "global_frame demo_env = 0"
    by (simp_all add: demo_env_def)
  have c: "cells demo_heap 0 = Frame [(0, FrameSymbol ''g'' (Ast_Literal (Boolean True)))]"
    "cells demo_heap 1 = Frame [(0, FrameSymbol ''x'' (Ast_Literal (Number 1))),
                                (1, FrameSymbol ''y'' (Ast_Literal (Number 2)))]"
    "cells demo_heap 2 = Frame [(3, FrameSymbol ''z'' (Ast_Literal (Number 3))),
                                (0, FrameSymbol ''x'' (Ast_Literal (Number 7)))]"
    by (simp_all add: demo_heap_def)
  have c': "cells demo_heap (Suc 0)
              = Frame [(0, FrameSymbol ''x'' (Ast_Literal (Number 1))),
                       (1, FrameSymbol ''y'' (Ast_Literal (Number 2)))]"
    "cells demo_heap (Suc (Suc 0))
       = Frame [(3, FrameSymbol ''z'' (Ast_Literal (Number 3))),
                (0, FrameSymbol ''x'' (Ast_Literal (Number 7)))]"
    by (simp_all add: demo_heap_def)
  have no: "\<not> contains_sym (cells demo_heap (frames demo_env ! j)) t"
    if "j < length (frames demo_env)" "t \<in> {''g'', ''nowhere''}" for j t
    using that by (auto simp: f c c' contains_sym_def less_Suc_eq numeral_2_eq_2)
  note search = lookup_name_search [of demo_env demo_heap]
  have x: "lookup_name demo_heap demo_env (Ast_Name ''x'') = Inr (Scope 1, 0)"
  proof -
    have "(1::nat) < length (frames demo_env)
          \<and> first_slot (cells demo_heap (frames demo_env ! 1)) ''x'' = Some 0
          \<and> (\<forall>j. 1 < j \<and> j < length (frames demo_env)
                 \<longrightarrow> \<not> contains_sym (cells demo_heap (frames demo_env ! j)) ''x'')"
      by (auto simp: f c first_slot_def)
    with search [of "''x''"] have "lookup_name demo_heap demo_env (Ast_Name ''x'')
                                 = Inr (Scope (int 1), 0)"
      by blast
    then show ?thesis by simp
  qed
  have y: "lookup_name demo_heap demo_env (Ast_Name ''y'') = Inr (Scope 0, 1)"
  proof -
    have "(0::nat) < length (frames demo_env)
          \<and> first_slot (cells demo_heap (frames demo_env ! 0)) ''y'' = Some 1
          \<and> (\<forall>j. 0 < j \<and> j < length (frames demo_env)
                 \<longrightarrow> \<not> contains_sym (cells demo_heap (frames demo_env ! j)) ''y'')"
      by (auto simp: f c c' first_slot_def contains_sym_def less_Suc_eq numeral_2_eq_2)
    with search [of "''y''"] have "lookup_name demo_heap demo_env (Ast_Name ''y'')
                                 = Inr (Scope (int 0), 1)"
      by blast
    then show ?thesis by simp
  qed
  have g: "lookup_name demo_heap demo_env (Ast_Name ''g'') = Inr (Global, 0)"
  proof -
    have "(\<forall>j<length (frames demo_env).
             \<not> contains_sym (cells demo_heap (frames demo_env ! j)) ''g'')
          \<and> first_slot (cells demo_heap (global_frame demo_env)) ''g'' = Some 0"
      using no by (simp add: f c first_slot_def)
    with search [of "''g''"] show ?thesis
      by blast
  qed
  have n: "isl (lookup_name demo_heap demo_env (Ast_Name ''nowhere''))"
  proof -
    have "(\<forall>j<length (frames demo_env).
             \<not> contains_sym (cells demo_heap (frames demo_env ! j)) ''nowhere'')
          \<and> \<not> contains_sym (cells demo_heap (global_frame demo_env)) ''nowhere''"
      using no by (simp add: f c contains_sym_def)
    with search [of "''nowhere''"] show ?thesis
      by blast
  qed
  from x y g n show ?thesis by simp
qed

text \<open>
  Claim C4, as stated, fails: for a name bound in no frame, \<open>lookup_name\<close> throws
  (\<open>throw null\<close>, after an assertion that always passes) instead of returning an empty
  optional.
\<close>

theorem lookup_name_unbound_throws:
  "lookup_name demo_heap demo_env (Ast_Name ''nowhere'') = Inl NullThrown"
  by (simp add: lookup_name_def demo_heap_def demo_env_def Frame_lookup_name_def
        internal_assertion_def numeral_2_eq_2)

section \<open>Writing the environment\<close>

text \<open>
  Claim C1. For an environment whose references are allocated and a resolved name that
  \<open>lookup\<close> resolves in it (as it does once the name was bound by \<open>add_var\<close>),
  \<open>set_var\<close> succeeds, and looking the name up in the environment it returns yields a
  \<open>Literal\<close> wrapping exactly the value that was set.
\<close>

theorem set_var_then_lookup:
  assumes ok: "allocated h env"
    and bound: "lookup h env n = Inr a"
  shows "\<exists>env' h'. set_var h env n v = (Inr env', h')
           \<and> lookup h' env' n = Inr (Ast_Literal v)"
proof (cases "fst (env_pos n)")
  case Global
  let ?h1 = "snd (map_copy h (frames env))"
  have c: "cells ?h1 (global_frame env) = cells h (global_frame env)"
    using ok by (simp add: map_copy_old allocated_def)
  obtain b where b: "map_of (frame_items (cells h (global_frame env))) (snd (env_pos n)) = Some b"
    and s: "fsym b = sym n"
    using bound Global
    by (auto simp: lookup_global Frame_lookup_eq split: option.splits if_splits)
  show ?thesis
    using Global b s c
    by (simp add: set_var_Global Frame_set_var_eq lookup_global Frame_lookup_eq
          write_frame_def map_of_Map_set)
next
  case (Scope i)
  let ?h1 = "snd (map_copy h (frames env))"
  have r: "0 \<le> i \<and> i < int (length (frames env))"
    using bound Scope by (auto simp: lookup_scope split: if_splits)
  then have ni: "nat i < length (frames env)" by (simp add: nat_less_iff)
  have c: "cells ?h1 (next_ref h + nat i) = cells h (frames env ! nat i)"
    using ok ni by (simp add: map_copy_cells allocated_def)
  obtain b where b: "map_of (frame_items (cells h (frames env ! nat i))) (snd (env_pos n)) = Some b"
    and s: "fsym b = sym n"
    using bound Scope r
    by (auto simp: lookup_scope Frame_lookup_eq split: option.splits if_splits)
  show ?thesis
    using Scope b s c r ni
    by (simp add: set_var_Scope Frame_set_var_eq lookup_scope Frame_lookup_eq
          write_frame_def map_of_Map_set map_copy_length map_copy_nth)
qed

theorem set_var_then_lookup_witness:
  "allocated demo_heap demo_env
   \<and> lookup demo_heap demo_env demo_x = Inr (Ast_Literal (Number 7))
   \<and> fst (set_var demo_heap demo_env demo_x (Number 9)) = Inr \<lparr>global_frame = 0, frames = [3, 4]\<rparr>
   \<and> lookup (snd (set_var demo_heap demo_env demo_x (Number 9)))
        \<lparr>global_frame = 0, frames = [3, 4]\<rparr> demo_x = Inr (Ast_Literal (Number 9))"
proof -
  have a: "allocated demo_heap demo_env"
    by (simp add: allocated_def demo_heap_def demo_env_def)
  have l: "lookup demo_heap demo_env demo_x = Inr (Ast_Literal (Number 7))"
    by (simp add: lookup_def demo_heap_def demo_env_def demo_x_def array_get_def
          internal_assertion_def Frame_lookup_def Map_get_def)
  have f: "fst (set_var demo_heap demo_env demo_x (Number 9))
             = Inr \<lparr>global_frame = 0, frames = [3, 4]\<rparr>"
    by (simp add: set_var_def copy_def demo_heap_def demo_env_def demo_x_def array_get_def
          internal_assertion_def Frame_set_var_def Map_get_def Frame_copy_def alloc_def
          write_frame_def Let_def)
  from set_var_then_lookup [OF a l, of "Number 9"] f a l show ?thesis
    by auto
qed

text \<open>
  Claim C9. \<open>set_var\<close> changes only the addressed slot: when it succeeds on an
  environment whose references are allocated, every resolved name with another address
  (another scope or another slot) looks up in the returned environment to what it looked
  up to before, and the frame stack keeps its length.
\<close>

theorem set_var_changes_only_addressed_slot:
  assumes ok: "allocated h env"
    and sv: "set_var h env n v = (Inr env', h')"
  shows "(\<forall>m. env_pos m \<noteq> env_pos n \<longrightarrow> lookup h' env' m = lookup h env m)
         \<and> length (frames env') = length (frames env)"
proof -
  let ?h1 = "snd (map_copy h (frames env))"
  let ?fs = "fst (map_copy h (frames env))"
  have g: "global_frame env < next_ref h"
    and old: "\<And>k. k < length (frames env) \<Longrightarrow> cells ?h1 (next_ref h + k) = cells h (frames env ! k)"
    using ok by (simp_all add: allocated_def map_copy_cells)
  have gc: "cells ?h1 (global_frame env) = cells h (global_frame env)"
    using g by (simp add: map_copy_old)
  have len: "length (frames env') = length (frames env)"
    using sv
    by (cases "fst (env_pos n)")
       (auto dest: set_var_success_Global set_var_success_Scope simp: map_copy_length)
  have "lookup h' env' m = lookup h env m" if ne: "env_pos m \<noteq> env_pos n" for m
  proof (cases "fst (env_pos n)")
    case Global
    note e = set_var_success_Global [OF Global sv]
    show ?thesis
    proof (cases "fst (env_pos m)")
      case G: Global
      have "snd (env_pos m) \<noteq> snd (env_pos n)"
        using ne Global G by (simp add: prod_eq_iff)
      then show ?thesis
        using e G gc
        by (simp add: lookup_global write_frame_def Frame_lookup_Map_set_other)
    next
      case (Scope j)
      show ?thesis
      proof (cases "0 \<le> j \<and> j < int (length (frames env))")
        case True
        then have "nat j < length (frames env)" by (simp add: nat_less_iff)
        then show ?thesis
          using e Scope True g old [of "nat j"]
          by (simp add: lookup_scope write_frame_def map_copy_length map_copy_nth)
      next
        case False
        then show ?thesis
          using e Scope by (auto simp: lookup_scope map_copy_length)
      qed
    qed
  next
    case (Scope i)
    note e = set_var_success_Scope [OF Scope sv]
    show ?thesis
    proof (cases "fst (env_pos m)")
      case Global
      then show ?thesis
        using e gc g by (simp add: lookup_global write_frame_def)
    next
      case S: (Scope j)
      show ?thesis
      proof (cases "0 \<le> j \<and> j < int (length (frames env))")
        case True
        then have nj: "nat j < length (frames env)" by (simp add: nat_less_iff)
        show ?thesis
        proof (cases "j = i")
          case True
          then have "snd (env_pos m) \<noteq> snd (env_pos n)"
            using ne Scope S by (simp add: prod_eq_iff)
          then show ?thesis
            using e S True nj old [of "nat j"]
            by (simp add: lookup_scope write_frame_def map_copy_length map_copy_nth
                  Frame_lookup_Map_set_other)
        next
          case False
          then have "nat j \<noteq> nat i" using True e by auto
          then show ?thesis
            using e S True nj old [of "nat j"]
            by (simp add: lookup_scope write_frame_def map_copy_length map_copy_nth)
        qed
      next
        case False
        then show ?thesis
          using e S by (auto simp: lookup_scope map_copy_length)
      qed
    qed
  qed
  with len show ?thesis by blast
qed

theorem set_var_changes_only_addressed_slot_witness:
  "allocated demo_heap demo_env
   \<and> fst (set_var demo_heap demo_env demo_x (Number 9))
       = Inr \<lparr>global_frame = 0, frames = [3, 4]\<rparr>
   \<and> env_pos demo_y \<noteq> env_pos demo_x
   \<and> lookup (snd (set_var demo_heap demo_env demo_x (Number 9)))
        \<lparr>global_frame = 0, frames = [3, 4]\<rparr> demo_y = lookup demo_heap demo_env demo_y
   \<and> length (frames \<lparr>global_frame = 0, frames = [3, 4]\<rparr>) = length (frames demo_env)"
proof -
  have a: "allocated demo_heap demo_env"
    by (simp add: allocated_def demo_heap_def demo_env_def)
  have f: "fst (set_var demo_heap demo_env demo_x (Number 9))
             = Inr \<lparr>global_frame = 0, frames = [3, 4]\<rparr>"
    by (simp add: set_var_def copy_def demo_heap_def demo_env_def demo_x_def array_get_def
          internal_assertion_def Frame_set_var_def Map_get_def Frame_copy_def alloc_def
          write_frame_def Let_def)
  then have s: "set_var demo_heap demo_env demo_x (Number 9)
                  = (Inr \<lparr>global_frame = 0, frames = [3, 4]\<rparr>,
                     snd (set_var demo_heap demo_env demo_x (Number 9)))"
    by (simp add: prod_eq_iff)
  have d: "env_pos demo_y \<noteq> env_pos demo_x"
    by (simp add: demo_x_def demo_y_def)
  from set_var_changes_only_addressed_slot [OF a s] d a f show ?thesis
    by simp
qed

text \<open>
  Claim C5. \<open>add_var\<close> with a resolved name whose slot is already occupied in the frame
  it addresses fails with a \<open>ScopeError\<close>, and \<open>remove_frame\<close> on an environment whose
  frame stack is empty fails.
\<close>

theorem add_var_occupied_and_remove_frame_empty:
  "(allocated h env \<and> slot_occupied h env n \<longrightarrow>
      (case fst (add_var h env n x) of Inl e \<Rightarrow> ScopeError e | Inr env' \<Rightarrow> False))
   \<and> (frames env = [] \<longrightarrow>
        fst (remove_frame h env)
          = Inl (InternalAssertionError ''Removing frame from an empty environment.''))"
proof -
  have 1: "case fst (add_var h env n x) of Inl e \<Rightarrow> ScopeError e | Inr env' \<Rightarrow> False"
    if ok: "allocated h env" and occ: "slot_occupied h env n"
  proof (cases "fst (env_pos n)")
    case Global
    have "cells (snd (map_copy h (frames env))) (global_frame env)
            = cells h (global_frame env)"
      using ok by (simp add: map_copy_old allocated_def)
    then show ?thesis
      using Global occ
      by (auto simp: add_var_eq add_var_mut_Global copy_simps Frame_add_var_eq
            slot_occupied_def binding_at_def addressed_frame_def scope_messages_def)
  next
    case (Scope i)
    have r: "0 \<le> i \<and> i < int (length (frames env))"
      and b: "map_of (frame_items (cells h (frames env ! nat i))) (snd (env_pos n)) \<noteq> None"
      using Scope occ
      by (auto simp: slot_occupied_def binding_at_def addressed_frame_def split: if_splits)
    show ?thesis
    proof (cases "i = int (length (frames env)) - 1")
      case False
      then show ?thesis
        using Scope
        by (simp add: add_var_eq add_var_mut_Scope copy_simps map_copy_length
              scope_messages_def)
    next
      case True
      obtain k where len: "length (frames env) = Suc k"
        using r by (cases "frames env") auto
      have i: "i = int k" using True len by simp
      have l: "last (fst (map_copy h (frames env))) = next_ref h + k"
        using len map_copy_nth [of k "frames env" h] map_copy_length [of h "frames env"]
        by (simp add: last_conv_nth flip: length_greater_0_conv)
      have c: "cells (snd (map_copy h (frames env))) (next_ref h + k)
                 = cells h (frames env ! k)"
        using ok len map_copy_cells [of "frames env" h k] by (simp add: allocated_def)
      have m: "fst (map_copy h (frames env)) \<noteq> []"
        using len map_copy_length [of h "frames env"] by auto
      show ?thesis
        using Scope i len b l c m
        by (auto simp: add_var_eq add_var_mut_Scope copy_simps map_copy_length
              Frame_add_var_eq scope_messages_def)
    qed
  qed
  have 2: "fst (remove_frame h env)
             = Inl (InternalAssertionError ''Removing frame from an empty environment.'')"
    if "frames env = []"
    using that by (simp add: remove_frame_def internal_assertion_def)
  from 1 2 show ?thesis by blast
qed

theorem add_var_occupied_and_remove_frame_empty_witness:
  "allocated demo_heap demo_env
   \<and> slot_occupied demo_heap demo_env demo_x
   \<and> isl (fst (add_var demo_heap demo_env demo_x (Ast_Literal (Number 5))))
   \<and> frames demo_global_env = []
   \<and> isl (fst (remove_frame demo_heap demo_global_env))"
proof -
  have a: "allocated demo_heap demo_env"
    by (simp add: allocated_def demo_heap_def demo_env_def)
  have o: "slot_occupied demo_heap demo_env demo_x"
    by (simp add: slot_occupied_def binding_at_def addressed_frame_def demo_heap_def
          demo_env_def demo_x_def)
  have e: "frames demo_global_env = []"
    by (simp add: demo_global_env_def)
  from add_var_occupied_and_remove_frame_empty
         [of demo_heap demo_env demo_x "Ast_Literal (Number 5)"] a o
  have 1: "isl (fst (add_var demo_heap demo_env demo_x (Ast_Literal (Number 5))))"
    by (auto split: sum.splits)
  from add_var_occupied_and_remove_frame_empty [of demo_heap demo_global_env] e
  have 2: "isl (fst (remove_frame demo_heap demo_global_env))"
    by simp
  from a o e 1 2 show ?thesis by simp
qed

text \<open>
  Claim C10. \<open>add_var\<close> accepts only the innermost scope or the global scope: with a
  scope index that is a number other than \<open>frames.length - 1\<close> it fails, whatever the
  addressed frame and slot hold.
\<close>

theorem add_var_outside_current_scope:
  assumes "fst (env_pos n) = Scope i"
    and "i \<noteq> int (length (frames env)) - 1"
  shows "fst (add_var h env n x)
           = Inl (InternalAssertionError ''Adding variable outside of current scope.'')"
  using assms
  by (simp add: add_var_eq add_var_mut_Scope copy_simps map_copy_length)

theorem add_var_outside_current_scope_witness:
  "addressed_frame demo_heap demo_env demo_w \<noteq> None
   \<and> \<not> slot_occupied demo_heap demo_env demo_w
   \<and> fst (add_var demo_heap demo_env demo_w (Ast_Literal (Number 5)))
       = Inl (InternalAssertionError ''Adding variable outside of current scope.'')"
proof -
  have s: "fst (env_pos demo_w) = Scope 0"
    by (simp add: demo_w_def)
  have i: "(0::int) \<noteq> int (length (frames demo_env)) - 1"
    by (simp add: demo_env_def)
  have a: "addressed_frame demo_heap demo_env demo_w \<noteq> None"
    by (simp add: addressed_frame_def demo_env_def demo_w_def)
  have f: "\<not> slot_occupied demo_heap demo_env demo_w"
    by (simp add: slot_occupied_def binding_at_def addressed_frame_def demo_heap_def
          demo_env_def demo_w_def)
  from add_var_outside_current_scope [OF s i] a f show ?thesis
    by simp
qed

section \<open>Sharing and persistence\<close>

text \<open>
  Claim C8. The environment returned by \<open>copy\<close>, \<open>set_var\<close>, \<open>add_var\<close>,
  \<open>add_frame\<close> or \<open>remove_frame\<close> holds the very same global frame object as the
  environment the operation was called on: the reference is passed on, never copied.
\<close>

theorem global_frame_shared:
  "global_frame (fst (copy h env)) = global_frame env
   \<and> global_frame (fst (add_frame h env)) = global_frame env
   \<and> (\<forall>env'. fst (set_var h env n v) = Inr env' \<longrightarrow> global_frame env' = global_frame env)
   \<and> (\<forall>env'. fst (add_var h env n' x) = Inr env' \<longrightarrow> global_frame env' = global_frame env)
   \<and> (\<forall>env'. fst (remove_frame h env) = Inr env' \<longrightarrow> global_frame env' = global_frame env)"
proof -
  have 1: "global_frame (fst (copy h env)) = global_frame env"
    by (simp add: copy_simps)
  have 2: "global_frame (fst (add_frame h env)) = global_frame env"
    by (simp add: add_frame_def split_beta)
  have 3: "global_frame env' = global_frame env" if "fst (set_var h env n v) = Inr env'" for env'
    using that
    by (cases "fst (env_pos n)")
       (auto simp: set_var_Global set_var_Scope split: prod.splits sum.splits if_splits)
  have 4: "global_frame env' = global_frame env" if "fst (add_var h env n' x) = Inr env'" for env'
    using that
    by (auto simp: add_var_eq copy_simps split: prod.splits sum.splits)
  have 5: "global_frame env' = global_frame env" if "fst (remove_frame h env) = Inr env'" for env'
    using that
    by (auto simp: remove_frame_def split_beta split: sum.splits)
  from 1 2 3 4 5 show ?thesis by blast
qed

theorem global_frame_shared_witness:
  "fst (set_var demo_heap demo_env demo_x (Number 9)) = Inr \<lparr>global_frame = 0, frames = [3, 4]\<rparr>
   \<and> fst (add_var demo_heap demo_env \<lparr>sym = ''w'', env_pos = (Scope 1, 5)\<rparr>
            (Ast_Literal (Number 5))) = Inr \<lparr>global_frame = 0, frames = [3, 4]\<rparr>
   \<and> fst (remove_frame demo_heap demo_env) = Inr \<lparr>global_frame = 0, frames = [3]\<rparr>
   \<and> global_frame (fst (copy demo_heap demo_env)) = global_frame demo_env
   \<and> global_frame (fst (add_frame demo_heap demo_env)) = global_frame demo_env
   \<and> global_frame \<lparr>global_frame = 0, frames = [3, 4]\<rparr> = global_frame demo_env
   \<and> global_frame \<lparr>global_frame = 0, frames = [3]\<rparr> = global_frame demo_env"
proof -
  have s: "fst (set_var demo_heap demo_env demo_x (Number 9))
             = Inr \<lparr>global_frame = 0, frames = [3, 4]\<rparr>"
    by (simp add: set_var_def copy_def demo_heap_def demo_env_def demo_x_def array_get_def
          internal_assertion_def Frame_set_var_def Map_get_def Frame_copy_def alloc_def
          write_frame_def Let_def)
  have a: "fst (add_var demo_heap demo_env \<lparr>sym = ''w'', env_pos = (Scope 1, 5)\<rparr>
                 (Ast_Literal (Number 5))) = Inr \<lparr>global_frame = 0, frames = [3, 4]\<rparr>"
    by (simp add: add_var_def add_var_mut_def copy_def demo_heap_def demo_env_def
          array_get_def internal_assertion_def Frame_add_var_def Map_has_def Frame_copy_def
          alloc_def write_frame_def Let_def)
  have r: "fst (remove_frame demo_heap demo_env) = Inr \<lparr>global_frame = 0, frames = [3]\<rparr>"
    by (simp add: remove_frame_def demo_heap_def demo_env_def internal_assertion_def
          Frame_copy_def alloc_def Let_def)
  from global_frame_shared
         [of demo_heap demo_env demo_x "Number 9"
            "\<lparr>sym = ''w'', env_pos = (Scope 1, 5)\<rparr>" "Ast_Literal (Number 5)"]
       s a r
  show ?thesis by auto
qed

text \<open>
  Claim C2, as amended. \<open>copy\<close>, \<open>add_frame\<close> and \<open>remove_frame\<close> leave every lookup on
  the original environment unchanged. So do \<open>set_var\<close> and \<open>add_var\<close> when they address
  the frame stack. When they address the global frame they write into the one global
  frame object that the original environment also holds: then every lookup on the
  original of a name with another address is unchanged. (Stated for environments whose
  references are allocated and whose global frame is not also a frame of the stack.)
\<close>

theorem original_environment_preserved:
  assumes ok: "allocated h env"
    and sep: "global_frame env \<notin> set (frames env)"
  shows "lookup (snd (copy h env)) env m = lookup h env m
         \<and> lookup (snd (add_frame h env)) env m = lookup h env m
         \<and> lookup (snd (remove_frame h env)) env m = lookup h env m
         \<and> (fst (env_pos n) \<noteq> Global \<or> env_pos m \<noteq> env_pos n \<longrightarrow>
              lookup (snd (set_var h env n v)) env m = lookup h env m
              \<and> lookup (snd (add_var h env n x)) env m = lookup h env m)"
proof -
  let ?h1 = "snd (map_copy h (frames env))"
  have a1: "allocated ?h1 env"
    using ok by (auto simp: allocated_def map_copy_next)
  have h1: "\<And>m. lookup ?h1 env m = lookup h env m"
    using ok by (rule map_copy_same_cells)
  have g1: "cells ?h1 (global_frame env) = cells h (global_frame env)"
    and f1: "\<And>r. r \<in> set (frames env) \<Longrightarrow> cells ?h1 r = cells h r"
    using ok by (auto simp: allocated_def map_copy_old)
  have 1: "lookup (snd (copy h env)) env m = lookup h env m"
    using h1 by (simp add: copy_simps)
  have 2: "lookup (snd (add_frame h env)) env m = lookup h env m"
  proof -
    have "lookup (snd (add_frame h env)) env m = lookup ?h1 env m"
      using a1 by (intro lookup_same_cells) (auto simp: add_frame_def split_beta alloc_def)
    then show ?thesis using h1 by simp
  qed
  have 3: "lookup (snd (remove_frame h env)) env m = lookup h env m"
    using ok
    by (auto simp: remove_frame_def split_beta internal_assertion_def map_copy_same_cells)
  have 4: "lookup (snd (set_var h env n v)) env m = lookup h env m"
    if c: "fst (env_pos n) \<noteq> Global \<or> env_pos m \<noteq> env_pos n"
  proof (cases "fst (env_pos n)")
    case Global
    then have "env_pos m \<noteq> (Global, snd (env_pos n))"
      using c by (auto simp: prod_eq_iff)
    then show ?thesis
      using Global h1 lookup_write_global_other [OF sep g1 f1]
      by (auto simp: set_var_Global Frame_set_var_eq split: option.splits)
  next
    case (Scope i)
    then show ?thesis
      using h1 lookup_write_other [OF ok, of "next_ref h + nat i"]
      by (auto simp: set_var_Scope Frame_set_var_eq map_copy_next split: option.splits)
  qed
  have 5: "lookup (snd (add_var h env n x)) env m = lookup h env m"
    if c: "fst (env_pos n) \<noteq> Global \<or> env_pos m \<noteq> env_pos n"
  proof (cases "fst (env_pos n)")
    case Global
    then have "env_pos m \<noteq> (Global, snd (env_pos n))"
      using c by (auto simp: prod_eq_iff)
    then show ?thesis
      using Global h1 lookup_write_global_other [OF sep g1 f1]
      by (auto simp: add_var_eq add_var_mut_Global copy_simps Frame_add_var_eq
            split: option.splits)
  next
    case (Scope i)
    show ?thesis
    proof (cases "frames env")
      case Nil
      then show ?thesis
        using Scope h1 by (simp add: add_var_eq add_var_mut_Scope copy_simps)
    next
      case (Cons a as)
      then have "last (fst (map_copy h (frames env))) = next_ref h + length as"
        using map_copy_nth [of "length as" "frames env" h] map_copy_length [of h "frames env"]
        by (simp add: last_conv_nth flip: length_greater_0_conv)
      then show ?thesis
        using Scope h1 lookup_write_other [OF ok, of "next_ref h + length as"]
        by (auto simp: add_var_eq add_var_mut_Scope copy_simps Frame_add_var_eq
              map_copy_next split: option.splits)
    qed
  qed
  from 1 2 3 4 5 show ?thesis by blast
qed

theorem original_environment_preserved_witness:
  "allocated demo_heap demo_env
   \<and> global_frame demo_env \<notin> set (frames demo_env)
   \<and> fst (env_pos demo_x) \<noteq> Global
   \<and> env_pos demo_y \<noteq> env_pos demo_g
   \<and> lookup (snd (copy demo_heap demo_env)) demo_env demo_x = Inr (Ast_Literal (Number 7))
   \<and> lookup (snd (add_frame demo_heap demo_env)) demo_env demo_x = Inr (Ast_Literal (Number 7))
   \<and> lookup (snd (remove_frame demo_heap demo_env)) demo_env demo_x
       = Inr (Ast_Literal (Number 7))
   \<and> lookup (snd (set_var demo_heap demo_env demo_x (Number 9))) demo_env demo_x
       = Inr (Ast_Literal (Number 7))
   \<and> lookup (snd (set_var demo_heap demo_env demo_g (Boolean False))) demo_env demo_y
       = Inr (Ast_Literal (Number 2))"
proof -
  have a: "allocated demo_heap demo_env"
    by (simp add: allocated_def demo_heap_def demo_env_def)
  have s: "global_frame demo_env \<notin> set (frames demo_env)"
    by (simp add: demo_env_def)
  have x: "fst (env_pos demo_x) \<noteq> Global"
    by (simp add: demo_x_def)
  have y: "env_pos demo_y \<noteq> env_pos demo_g"
    by (simp add: demo_y_def demo_g_def)
  have lx: "lookup demo_heap demo_env demo_x = Inr (Ast_Literal (Number 7))"
    by (simp add: lookup_def demo_heap_def demo_env_def demo_x_def array_get_def
          internal_assertion_def Frame_lookup_def Map_get_def)
  have ly: "lookup demo_heap demo_env demo_y = Inr (Ast_Literal (Number 2))"
    by (simp add: lookup_def demo_heap_def demo_env_def demo_y_def array_get_def
          internal_assertion_def Frame_lookup_def Map_get_def)
  from original_environment_preserved [OF a s, of demo_x demo_x "Number 9"]
       original_environment_preserved [OF a s, of demo_y demo_g "Boolean False"]
       a s x y lx ly
  show ?thesis by simp
qed

text \<open>
  Claim C2, as stated, fails: \<open>set_var\<close> on a name with a global address writes into the
  global frame, which the original environment shares, so the same lookup on the
  original environment gives another result afterwards.
\<close>

theorem set_var_global_seen_by_original:
  "allocated demo_heap demo_env
   \<and> global_frame demo_env \<notin> set (frames demo_env)
   \<and> fst (set_var demo_heap demo_env demo_g (Boolean False))
       = Inr \<lparr>global_frame = 0, frames = [3, 4]\<rparr>
   \<and> lookup demo_heap demo_env demo_g = Inr (Ast_Literal (Boolean True))
   \<and> lookup (snd (set_var demo_heap demo_env demo_g (Boolean False))) demo_env demo_g
       = Inr (Ast_Literal (Boolean False))"
  by (simp add: allocated_def set_var_def copy_def demo_heap_def demo_env_def demo_g_def
        array_get_def internal_assertion_def Frame_set_var_def Map_get_def Frame_copy_def
        alloc_def write_frame_def Let_def lookup_def Frame_lookup_def)

end
